theory Spec2Isabelle
  imports Main
begin

section \<open>Python values exchanged with the service\<close>

text \<open>
  Everything the client sends or receives is JSON-compatible Python data. A Python
  \<open>dict\<close> is kept as an association list in insertion order, so that a request body is
  compared as the document the transport would serialise. \<open>JNull\<close> is Python's \<open>None\<close>.
\<close>

datatype json =
    JNull
  | JBool bool
  | JInt int
  | JStr string
  | JList "json list"
  | JObj "(string \<times> json) list"

type_synonym dict = "(string \<times> json) list"

text \<open>\<open>d[k] = v\<close>: an existing key keeps its position, a new key goes to the end.\<close>

fun dict_setitem :: "dict \<Rightarrow> string \<Rightarrow> json \<Rightarrow> dict" where
  "dict_setitem [] k v = [(k, v)]"
| "dict_setitem ((k', v') # d) k v =
     (if k' = k then (k, v) # d else (k', v') # dict_setitem d k v)"

text \<open>\<open>d.update(other)\<close>: every item of \<open>other\<close> is assigned into \<open>d\<close>, in order.\<close>

fun dict_update :: "dict \<Rightarrow> dict \<Rightarrow> dict" where
  "dict_update d [] = d"
| "dict_update d ((k, v) # other) = dict_update (dict_setitem d k v) other"

text \<open>\<open>d.get(k, default)\<close>.\<close>

definition dict_get :: "dict \<Rightarrow> string \<Rightarrow> json \<Rightarrow> json" where
  "dict_get d k dflt = (case map_of d k of None \<Rightarrow> dflt | Some v \<Rightarrow> v)"

text \<open>
  A parameter declared \<open>Optional[T] = None\<close> is a \<open>T option\<close>: \<open>None\<close> is the parameter
  left out (or passed as \<open>None\<close>, which the code cannot tell apart). \<open>of_optional\<close> is
  the value such a parameter has inside a payload; \<open>or_default\<close> binds a parameter
  declared with another default (\<open>limit: int = 10\<close>).
\<close>

definition of_optional :: "('a \<Rightarrow> json) \<Rightarrow> 'a option \<Rightarrow> json" where
  "of_optional enc x = (case x of None \<Rightarrow> JNull | Some v \<Rightarrow> enc v)"

definition or_default :: "'a \<Rightarrow> 'a option \<Rightarrow> 'a" where
  "or_default dflt x = (case x of None \<Rightarrow> dflt | Some v \<Rightarrow> v)"

section \<open>The HTTP transport (the \<open>requests\<close> library)\<close>

datatype http_method = GET | POST | PUT

text \<open>What one call of \<open>session.get\<close>, \<open>session.post\<close> or \<open>session.put\<close> asks for.\<close>

record request =
  req_method :: http_method
  req_url :: string
  req_json :: "dict option"
  req_params :: "dict option"
  req_stream :: bool

text \<open>
  What the remote service answers: the status code, the raw body, and what the JSON
  decoder makes of that body (\<open>None\<close> when the body is not JSON; a decoded object is a
  \<open>dict\<close>, so it has each key once).
\<close>

record answer =
  status_code :: int
  resp_text :: string
  json_doc :: "json option"

text \<open>
  A \<open>requests.Response\<close>: the answer, and whether its body has been read off the
  connection yet.
\<close>

record Response = answer +
  content_consumed :: bool

datatype error =
    HTTPError Response
  | JSONDecodeError
  | AttributeError

section \<open>The client and its surroundings\<close>

text \<open>
  \<open>session\<close> stands for the \<open>requests.Session\<close> object together with the service behind
  it: what comes back for each request.
\<close>

record MCPClient =
  base_url :: string
  session :: "request \<Rightarrow> answer"

text \<open>
  The state an operation runs in: the client object, the requests that went out so far,
  and what was printed (each \<open>print\<close> call with its arguments).
\<close>

record state =
  self :: MCPClient
  sent :: "request list"
  stdout :: "json list list"

definition init :: "string \<Rightarrow> (request \<Rightarrow> answer) \<Rightarrow> MCPClient" where
  "init base new_session = \<lparr>base_url = base, session = new_session\<rparr>"

text \<open>
  \<open>Session.request\<close> ends with \<open>if not stream: r.content\<close>: the body is read before the
  call returns unless streaming was asked for.
\<close>

definition receive :: "request \<Rightarrow> answer \<Rightarrow> Response" where
  "receive req a =
     \<lparr>status_code = status_code a, resp_text = resp_text a, json_doc = json_doc a,
      content_consumed = (\<not> req_stream req)\<rparr>"

definition session_request :: "request \<Rightarrow> state \<Rightarrow> Response \<times> state" where
  "session_request req s =
     (receive req (session (self s) req), s\<lparr>sent := sent s @ [req]\<rparr>)"

definition session_post :: "string \<Rightarrow> dict \<Rightarrow> bool \<Rightarrow> state \<Rightarrow> Response \<times> state" where
  "session_post url payload streaming s =
     session_request \<lparr>req_method = POST, req_url = url, req_json = Some payload,
                      req_params = None, req_stream = streaming\<rparr> s"

definition session_put :: "string \<Rightarrow> dict \<Rightarrow> state \<Rightarrow> Response \<times> state" where
  "session_put url payload s =
     session_request \<lparr>req_method = PUT, req_url = url, req_json = Some payload,
                      req_params = None, req_stream = False\<rparr> s"

definition session_get :: "string \<Rightarrow> dict option \<Rightarrow> state \<Rightarrow> Response \<times> state" where
  "session_get url query s =
     session_request \<lparr>req_method = GET, req_url = url, req_json = None,
                      req_params = query, req_stream = False\<rparr> s"

text \<open>
  \<open>Response.raise_for_status\<close> of the library:
  \<^verbatim>\<open>
  if 400 <= self.status_code < 500:   http_error_msg = "... Client Error ..."
  elif 500 <= self.status_code < 600: http_error_msg = "... Server Error ..."
  if http_error_msg: raise HTTPError(http_error_msg, response=self)
  \<close>
  The error carries the response object itself.
\<close>

definition raise_for_status :: "Response \<Rightarrow> error + unit" where
  "raise_for_status r =
     (if 400 \<le> status_code r \<and> status_code r < 500 then Inl (HTTPError r)
      else if 500 \<le> status_code r \<and> status_code r < 600 then Inl (HTTPError r)
      else Inr ())"

text \<open>The status codes for which \<open>raise_for_status\<close> raises.\<close>

definition http_failure :: "int \<Rightarrow> bool" where
  "http_failure code = (400 \<le> code \<and> code < 600)"

text \<open>\<open>response.json()\<close>: the decoded body, or the decoder's failure.\<close>

definition response_json :: "Response \<Rightarrow> error + json" where
  "response_json r = (case json_doc r of None \<Rightarrow> Inl JSONDecodeError | Some j \<Rightarrow> Inr j)"

text \<open>\<open>response.text\<close>: reads the body if that has not happened yet.\<close>

definition response_text :: "Response \<Rightarrow> string \<times> Response" where
  "response_text r = (resp_text r, r\<lparr>content_consumed := True\<rparr>)"

definition print :: "json list \<Rightarrow> state \<Rightarrow> state" where
  "print args s = s\<lparr>stdout := stdout s @ [args]\<rparr>"

section \<open>The operations of \<open>MCPClient\<close>\<close>

text \<open>
  Each method takes the arguments the caller supplies, then the state. A parameter with a
  default is an \<open>option\<close>; \<open>kwargs\<close> are the keyword arguments that name no declared
  parameter. Python binds a keyword that names a parameter to that parameter, so the
  extras of a call never hold the name of one of its parameters (\<open>assistant_id\<close>,
  \<open>input_data\<close>, \<open>config\<close>, \<open>metadata\<close>, and \<open>checkpoint\<close> for \<open>run_stateful\<close>): the one
  body key they can share with a named field is \<open>input\<close>.
  A raised exception is the \<open>Inl\<close> of the result.
\<close>

definition run_stateful ::
  "string \<Rightarrow> json option \<Rightarrow> dict option \<Rightarrow> dict option \<Rightarrow> dict option \<Rightarrow> dict
    \<Rightarrow> state \<Rightarrow> (error + json) \<times> state" where
  "run_stateful assistant_id input_data config checkpoint metadata kwargs s =
     (let payload = [(''assistant_id'', JStr assistant_id),
                     (''input'', of_optional id input_data),
                     (''config'', of_optional JObj config),
                     (''checkpoint'', of_optional JObj checkpoint),
                     (''metadata'', of_optional JObj metadata)];
          payload = dict_update payload kwargs;
          url = base_url (self s) @ ''/threads/runs/wait'';
          (response, s) = session_post url payload False s
      in case raise_for_status response of
           Inl e \<Rightarrow> (Inl e, s)
         | Inr _ \<Rightarrow> (response_json response, s))"

definition run_stateless ::
  "string \<Rightarrow> json option \<Rightarrow> dict option \<Rightarrow> dict option \<Rightarrow> dict
    \<Rightarrow> state \<Rightarrow> (error + json) \<times> state" where
  "run_stateless assistant_id input_data config metadata kwargs s =
     (let payload = [(''assistant_id'', JStr assistant_id),
                     (''input'', of_optional id input_data),
                     (''config'', of_optional JObj config),
                     (''metadata'', of_optional JObj metadata)];
          payload = dict_update payload kwargs;
          url = base_url (self s) @ ''/runs/wait'';
          (response, s) = session_post url payload False s
      in case raise_for_status response of
           Inl (HTTPError _) \<Rightarrow>
             (let (body, response) = response_text response;
                  s = print [JStr ''HTTP Error:'', JInt (status_code response), JStr body] s
              in (Inl (HTTPError response), s))
         | Inl e \<Rightarrow> (Inl e, s)
         | Inr _ \<Rightarrow> (response_json response, s))"

definition stream_run ::
  "string \<Rightarrow> json option \<Rightarrow> dict option \<Rightarrow> dict option \<Rightarrow> dict
    \<Rightarrow> state \<Rightarrow> (error + Response) \<times> state" where
  "stream_run assistant_id input_data config metadata kwargs s =
     (let payload = [(''assistant_id'', JStr assistant_id),
                     (''input'', of_optional id input_data),
                     (''config'', of_optional JObj config),
                     (''metadata'', of_optional JObj metadata)];
          payload = dict_update payload kwargs;
          url = base_url (self s) @ ''/runs/stream'';
          (response, s) = session_post url payload True s
      in case raise_for_status response of
           Inl e \<Rightarrow> (Inl e, s)
         | Inr _ \<Rightarrow> (Inr response, s))"

definition get_run_status :: "string \<Rightarrow> string \<Rightarrow> state \<Rightarrow> (error + json) \<times> state" where
  "get_run_status thread_id run_id s =
     (let url = base_url (self s) @ ''/threads/'' @ thread_id @ ''/runs/'' @ run_id;
          (response, s) = session_get url None s
      in case raise_for_status response of
           Inl e \<Rightarrow> (Inl e, s)
         | Inr _ \<Rightarrow> (response_json response, s))"

definition cancel_run :: "string \<Rightarrow> string \<Rightarrow> dict \<Rightarrow> state \<Rightarrow> (error + unit) \<times> state" where
  "cancel_run thread_id run_id kwargs s =
     (let url = base_url (self s) @ ''/threads/'' @ thread_id @ ''/runs/'' @ run_id @ ''/cancel'';
          (response, s) = session_post url kwargs False s
      in case raise_for_status response of
           Inl e \<Rightarrow> (Inl e, s)
         | Inr _ \<Rightarrow> (Inr (), s))"

definition get_assistant_details :: "string \<Rightarrow> state \<Rightarrow> (error + json) \<times> state" where
  "get_assistant_details assistant_id s =
     (let url = base_url (self s) @ ''/assistants/'' @ assistant_id @ ''/schemas'';
          (response, s) = session_get url None s
      in case raise_for_status response of
           Inl e \<Rightarrow> (Inl e, s)
         | Inr _ \<Rightarrow> (response_json response, s))"

text \<open>
  \<open>details.get("input_schema", {})\<close>: \<open>get\<close> is looked up on whatever the decoder
  returned; only a \<open>dict\<close> has it.
\<close>

fun method_get :: "json \<Rightarrow> string \<Rightarrow> json \<Rightarrow> error + json" where
  "method_get (JObj d) k dflt = Inr (dict_get d k dflt)"
| "method_get _ k dflt = Inl AttributeError"

definition get_assistant_schema :: "string \<Rightarrow> state \<Rightarrow> (error + json) \<times> state" where
  "get_assistant_schema assistant_id s =
     (case get_assistant_details assistant_id s of
        (Inl e, s) \<Rightarrow> (Inl e, s)
      | (Inr details, s) \<Rightarrow> (method_get details ''input_schema'' (JObj []), s))"

definition get_thread_state :: "string \<Rightarrow> state \<Rightarrow> (error + json) \<times> state" where
  "get_thread_state thread_id s =
     (let url = base_url (self s) @ ''/threads/'' @ thread_id @ ''/state'';
          (response, s) = session_get url None s
      in case raise_for_status response of
           Inl e \<Rightarrow> (Inl e, s)
         | Inr _ \<Rightarrow> (response_json response, s))"

definition update_thread_state ::
  "string \<Rightarrow> dict \<Rightarrow> dict option \<Rightarrow> state \<Rightarrow> (error + json) \<times> state" where
  "update_thread_state thread_id values checkpoint s =
     (let payload = [(''values'', JObj values),
                     (''checkpoint'', of_optional JObj checkpoint)];
          url = base_url (self s) @ ''/threads/'' @ thread_id @ ''/state'';
          (response, s) = session_post url payload False s
      in case raise_for_status response of
           Inl e \<Rightarrow> (Inl e, s)
         | Inr _ \<Rightarrow> (response_json response, s))"

definition put_item ::
  "json list \<Rightarrow> string \<Rightarrow> dict \<Rightarrow> state \<Rightarrow> (error + unit) \<times> state" where
  "put_item namespace key val s =
     (let payload = [(''namespace'', JList namespace),
                     (''key'', JStr key),
                     (''value'', JObj val)];
          url = base_url (self s) @ ''/store/items'';
          (response, s) = session_put url payload s
      in case raise_for_status response of
           Inl e \<Rightarrow> (Inl e, s)
         | Inr _ \<Rightarrow> (Inr (), s))"

definition get_item ::
  "json list option \<Rightarrow> string option \<Rightarrow> state \<Rightarrow> (error + json) \<times> state" where
  "get_item namespace key s =
     (let url = base_url (self s) @ ''/store/items'';
          params = [(''namespace'', of_optional JList namespace),
                    (''key'', of_optional JStr key)];
          (response, s) = session_get url (Some params) s
      in case raise_for_status response of
           Inl e \<Rightarrow> (Inl e, s)
         | Inr _ \<Rightarrow> (response_json response, s))"

definition search_items ::
  "json list option \<Rightarrow> dict option \<Rightarrow> int option \<Rightarrow> int option
    \<Rightarrow> state \<Rightarrow> (error + json) \<times> state" where
  "search_items namespace_prefix filter_by limit offset s =
     (let payload = [(''namespace_prefix'', of_optional JList namespace_prefix),
                     (''filter'', of_optional JObj filter_by),
                     (''limit'', JInt (or_default 10 limit)),
                     (''offset'', JInt (or_default 0 offset))];
          url = base_url (self s) @ ''/store/items/search'';
          (response, s) = session_post url payload False s
      in case raise_for_status response of
           Inl e \<Rightarrow> (Inl e, s)
         | Inr _ \<Rightarrow> (response_json response, s))"

definition create_assistant ::
  "string \<Rightarrow> string option \<Rightarrow> dict option \<Rightarrow> dict option \<Rightarrow> string option \<Rightarrow> string option
    \<Rightarrow> state \<Rightarrow> (error + json) \<times> state" where
  "create_assistant graph_id assistant_id config metadata name if_exists s =
     (let payload = [(''graph_id'', JStr graph_id),
                     (''if_exists'', JStr (or_default ''raise'' if_exists))];
          payload = (case assistant_id of None \<Rightarrow> payload
                     | Some v \<Rightarrow> dict_setitem payload ''assistant_id'' (JStr v));
          payload = (case config of None \<Rightarrow> payload
                     | Some v \<Rightarrow> dict_setitem payload ''config'' (JObj v));
          payload = (case metadata of None \<Rightarrow> payload
                     | Some v \<Rightarrow> dict_setitem payload ''metadata'' (JObj v));
          payload = (case name of None \<Rightarrow> payload
                     | Some v \<Rightarrow> dict_setitem payload ''name'' (JStr v));
          url = base_url (self s) @ ''/assistants'';
          (response, s) = session_post url payload False s
      in case raise_for_status response of
           Inl e \<Rightarrow> (Inl e, s)
         | Inr _ \<Rightarrow> (response_json response, s))"

section \<open>One call of the client\<close>

text \<open>
  A call names the method and carries the arguments the caller supplies; \<open>perform\<close>
  runs it. The three kinds of return value (a decoded document, nothing, the response
  object) are put side by side.
\<close>

datatype call =
    RunStateful string "json option" "dict option" "dict option" "dict option" dict
  | RunStateless string "json option" "dict option" "dict option" dict
  | StreamRun string "json option" "dict option" "dict option" dict
  | GetRunStatus string string
  | CancelRun string string dict
  | GetAssistantDetails string
  | GetAssistantSchema string
  | GetThreadState string
  | UpdateThreadState string dict "dict option"
  | PutItem "json list" string dict
  | GetItem "json list option" "string option"
  | SearchItems "json list option" "dict option" "int option" "int option"
  | CreateAssistant string "string option" "dict option" "dict option" "string option"
      "string option"

datatype retval = Document json | Nothing | Handle Response

definition returning :: "('a \<Rightarrow> retval) \<Rightarrow> (error + 'a) \<times> state \<Rightarrow> (error + retval) \<times> state" where
  "returning f res = (map_sum id f (fst res), snd res)"

fun perform :: "call \<Rightarrow> state \<Rightarrow> (error + retval) \<times> state" where
  "perform (RunStateful a i c cp m kw) s = returning Document (run_stateful a i c cp m kw s)"
| "perform (RunStateless a i c m kw) s = returning Document (run_stateless a i c m kw s)"
| "perform (StreamRun a i c m kw) s = returning Handle (stream_run a i c m kw s)"
| "perform (GetRunStatus t r) s = returning Document (get_run_status t r s)"
| "perform (CancelRun t r kw) s = returning (\<lambda>_. Nothing) (cancel_run t r kw s)"
| "perform (GetAssistantDetails a) s = returning Document (get_assistant_details a s)"
| "perform (GetAssistantSchema a) s = returning Document (get_assistant_schema a s)"
| "perform (GetThreadState t) s = returning Document (get_thread_state t s)"
| "perform (UpdateThreadState t v cp) s = returning Document (update_thread_state t v cp s)"
| "perform (PutItem ns k v) s = returning (\<lambda>_. Nothing) (put_item ns k v s)"
| "perform (GetItem ns k) s = returning Document (get_item ns k s)"
| "perform (SearchItems ns f l off) s = returning Document (search_items ns f l off s)"
| "perform (CreateAssistant g a c m n ie) s = returning Document (create_assistant g a c m n ie s)"

fun is_run_stateless :: "call \<Rightarrow> bool" where
  "is_run_stateless (RunStateless a i c m kw) = True"
| "is_run_stateless _ = False"

text \<open>The request an operation issued, and one key of its JSON body.\<close>

definition issued :: "'a \<times> state \<Rightarrow> request" where
  "issued res = last (sent (snd res))"

definition body_field :: "'a \<times> state \<Rightarrow> string \<Rightarrow> json option" where
  "body_field res k = (case req_json (issued res) of None \<Rightarrow> None | Some d \<Rightarrow> map_of d k)"

section \<open>The documented mapping\<close>

text \<open>
  The table of operations of the specification, written down on its own: for each call
  its method, its path, the named fields of its JSON body, its extras and its query
  parameters.
\<close>

definition supplied :: "string \<Rightarrow> ('a \<Rightarrow> json) \<Rightarrow> 'a option \<Rightarrow> dict" where
  "supplied k enc x = (case x of None \<Rightarrow> [] | Some v \<Rightarrow> [(k, enc v)])"

definition left_out :: "string \<Rightarrow> json \<Rightarrow> 'a option \<Rightarrow> dict" where
  "left_out k dflt x = (case x of None \<Rightarrow> [(k, dflt)] | Some _ \<Rightarrow> [])"

fun documented_method :: "call \<Rightarrow> http_method" where
  "documented_method (GetRunStatus t r) = GET"
| "documented_method (GetAssistantDetails a) = GET"
| "documented_method (GetAssistantSchema a) = GET"
| "documented_method (GetThreadState t) = GET"
| "documented_method (GetItem ns k) = GET"
| "documented_method (PutItem ns k v) = PUT"
| "documented_method _ = POST"

fun documented_path :: "call \<Rightarrow> string" where
  "documented_path (RunStateful a i c cp m kw) = ''/threads/runs/wait''"
| "documented_path (RunStateless a i c m kw) = ''/runs/wait''"
| "documented_path (StreamRun a i c m kw) = ''/runs/stream''"
| "documented_path (GetRunStatus t r) = ''/threads/'' @ t @ ''/runs/'' @ r"
| "documented_path (CancelRun t r kw) = ''/threads/'' @ t @ ''/runs/'' @ r @ ''/cancel''"
| "documented_path (GetAssistantDetails a) = ''/assistants/'' @ a @ ''/schemas''"
| "documented_path (GetAssistantSchema a) = ''/assistants/'' @ a @ ''/schemas''"
| "documented_path (GetThreadState t) = ''/threads/'' @ t @ ''/state''"
| "documented_path (UpdateThreadState t v cp) = ''/threads/'' @ t @ ''/state''"
| "documented_path (PutItem ns k v) = ''/store/items''"
| "documented_path (GetItem ns k) = ''/store/items''"
| "documented_path (SearchItems ns f l off) = ''/store/items/search''"
| "documented_path (CreateAssistant g a c m n ie) = ''/assistants''"

text \<open>The open-ended extra parameters of a call.\<close>

fun extras :: "call \<Rightarrow> dict" where
  "extras (RunStateful a i c cp m kw) = kw"
| "extras (RunStateless a i c m kw) = kw"
| "extras (StreamRun a i c m kw) = kw"
| "extras (CancelRun t r kw) = kw"
| "extras _ = []"

fun accepts_extras :: "call \<Rightarrow> bool" where
  "accepts_extras (RunStateful a i c cp m kw) = True"
| "accepts_extras (RunStateless a i c m kw) = True"
| "accepts_extras (StreamRun a i c m kw) = True"
| "accepts_extras (CancelRun t r kw) = True"
| "accepts_extras _ = False"

text \<open>
  The named fields of the body: every declared field, \<open>null\<close> where the caller left an
  optional one out; for \<open>createAssistant\<close> only the fields the caller set.
\<close>

fun named_fields :: "call \<Rightarrow> dict" where
  "named_fields (RunStateful a i c cp m kw) =
     [(''assistant_id'', JStr a), (''input'', of_optional id i), (''config'', of_optional JObj c),
      (''checkpoint'', of_optional JObj cp), (''metadata'', of_optional JObj m)]"
| "named_fields (RunStateless a i c m kw) =
     [(''assistant_id'', JStr a), (''input'', of_optional id i), (''config'', of_optional JObj c),
      (''metadata'', of_optional JObj m)]"
| "named_fields (StreamRun a i c m kw) =
     [(''assistant_id'', JStr a), (''input'', of_optional id i), (''config'', of_optional JObj c),
      (''metadata'', of_optional JObj m)]"
| "named_fields (UpdateThreadState t v cp) =
     [(''values'', JObj v), (''checkpoint'', of_optional JObj cp)]"
| "named_fields (PutItem ns k v) =
     [(''namespace'', JList ns), (''key'', JStr k), (''value'', JObj v)]"
| "named_fields (SearchItems ns f l off) =
     [(''namespace_prefix'', of_optional JList ns), (''filter'', of_optional JObj f),
      (''limit'', JInt (or_default 10 l)), (''offset'', JInt (or_default 0 off))]"
| "named_fields (CreateAssistant g a c m n ie) =
     [(''graph_id'', JStr g), (''if_exists'', JStr (or_default ''raise'' ie))]
     @ supplied ''assistant_id'' JStr a @ supplied ''config'' JObj c
     @ supplied ''metadata'' JObj m @ supplied ''name'' JStr n"
| "named_fields _ = []"

fun documented_body :: "call \<Rightarrow> dict option" where
  "documented_body (CancelRun t r kw) = Some kw"
| "documented_body c =
     (if documented_method c = GET then None
      else Some (dict_update (named_fields c) (extras c)))"

fun documented_query :: "call \<Rightarrow> dict option" where
  "documented_query (GetItem ns k) =
     Some [(''namespace'', of_optional JList ns), (''key'', of_optional JStr k)]"
| "documented_query _ = None"

fun documented_streaming :: "call \<Rightarrow> bool" where
  "documented_streaming (StreamRun a i c m kw) = True"
| "documented_streaming _ = False"

definition documented_request :: "string \<Rightarrow> call \<Rightarrow> request" where
  "documented_request base c =
     \<lparr>req_method = documented_method c, req_url = base @ documented_path c,
      req_json = documented_body c, req_params = documented_query c,
      req_stream = documented_streaming c\<rparr>"

text \<open>
  The body keys an operation declares (none listed for \<open>createAssistant\<close>, whose optional
  keys may be absent), and for the optional parameters a caller left out the value the
  declaration gives them.
\<close>

fun declared_keys :: "call \<Rightarrow> string list" where
  "declared_keys (RunStateful a i c cp m kw) =
     [''assistant_id'', ''input'', ''config'', ''checkpoint'', ''metadata'']"
| "declared_keys (RunStateless a i c m kw) = [''assistant_id'', ''input'', ''config'', ''metadata'']"
| "declared_keys (StreamRun a i c m kw) = [''assistant_id'', ''input'', ''config'', ''metadata'']"
| "declared_keys (UpdateThreadState t v cp) = [''values'', ''checkpoint'']"
| "declared_keys (SearchItems ns f l off) = [''namespace_prefix'', ''filter'', ''limit'', ''offset'']"
| "declared_keys _ = []"

fun omitted :: "call \<Rightarrow> dict" where
  "omitted (RunStateful a i c cp m kw) =
     left_out ''input'' JNull i @ left_out ''config'' JNull c
     @ left_out ''checkpoint'' JNull cp @ left_out ''metadata'' JNull m"
| "omitted (RunStateless a i c m kw) =
     left_out ''input'' JNull i @ left_out ''config'' JNull c @ left_out ''metadata'' JNull m"
| "omitted (StreamRun a i c m kw) =
     left_out ''input'' JNull i @ left_out ''config'' JNull c @ left_out ''metadata'' JNull m"
| "omitted (UpdateThreadState t v cp) = left_out ''checkpoint'' JNull cp"
| "omitted (SearchItems ns f l off) =
     left_out ''namespace_prefix'' JNull ns @ left_out ''filter'' JNull f
     @ left_out ''limit'' (JInt 10) l @ left_out ''offset'' (JInt 0) off"
| "omitted _ = []"



section \<open>Example surroundings\<close>

text \<open>A service that gives the same answer to every request, and a client just constructed.\<close>

definition replying :: "int \<Rightarrow> string \<Rightarrow> json option \<Rightarrow> request \<Rightarrow> answer" where
  "replying code body doc = (\<lambda>_. \<lparr>status_code = code, resp_text = body, json_doc = doc\<rparr>)"

definition fresh :: "(request \<Rightarrow> answer) \<Rightarrow> state" where
  "fresh service = \<lparr>self = init ''http://localhost:2024'' service, sent = [], stdout = []\<rparr>"

section \<open>Dictionaries\<close>

lemma map_of_dict_setitem: "map_of (dict_setitem d k v) = (map_of d)(k \<mapsto> v)"
  by (induction d k v rule: dict_setitem.induct) (auto simp: fun_eq_iff)

lemma keys_dict_setitem: "fst ` set (dict_setitem d k v) = insert k (fst ` set d)"
  by (induction d k v rule: dict_setitem.induct) auto

lemma dict_setitem_new: "k \<notin> fst ` set d \<Longrightarrow> dict_setitem d k v = d @ [(k, v)]"
  by (induction d k v rule: dict_setitem.induct) auto

lemma keys_dict_update: "fst ` set (dict_update d kw) = fst ` set d \<union> fst ` set kw"
  by (induction d kw rule: dict_update.induct) (auto simp: keys_dict_setitem)

lemma map_of_dict_update_other:
  "k \<notin> fst ` set kw \<Longrightarrow> map_of (dict_update d kw) k = map_of d k"
  by (induction d kw rule: dict_update.induct) (auto simp: map_of_dict_setitem)

lemma map_of_dict_update_present:
  "k \<in> fst ` set d \<Longrightarrow> map_of (dict_update d kw) k \<noteq> None"
  by (simp add: map_of_eq_None_iff keys_dict_update)

text \<open>Merging a dictionary: its entries win, everything else stays.\<close>

lemma map_of_dict_update:
  "distinct (map fst kw) \<Longrightarrow>
   map_of (dict_update d kw) k' = (case map_of kw k' of Some v \<Rightarrow> Some v | None \<Rightarrow> map_of d k')"
proof (induction d kw rule: dict_update.induct)
  case (1 d)
  then show ?case by simp
next
  case (2 d k v other)
  then have "map_of other k = None"
    by (simp add: map_of_eq_None_iff)
  with 2 show ?case
    by (simp add: map_of_dict_setitem split: option.splits)
qed

lemma dict_update_disjoint:
  "distinct (map fst kw) \<Longrightarrow> fst ` set d \<inter> fst ` set kw = {} \<Longrightarrow> dict_update d kw = d @ kw"
proof (induction d kw rule: dict_update.induct)
  case (1 d)
  then show ?case by simp
next
  case (2 d k v other)
  from 2 have "k \<notin> fst ` set d" by auto
  then have a: "dict_setitem d k v = d @ [(k, v)]" by (rule dict_setitem_new)
  from 2 have "fst ` set (d @ [(k, v)]) \<inter> fst ` set other = {}" by auto
  with 2 a show ?case by simp
qed

section \<open>What every operation does\<close>

lemma raise_for_status_iff:
  "raise_for_status r = (if http_failure (status_code r) then Inl (HTTPError r) else Inr ())"
  by (auto simp: raise_for_status_def http_failure_def)

lemma status_code_receive [simp]: "status_code (receive req a) = status_code a"
  by (simp add: receive_def)

lemma resp_text_receive [simp]: "resp_text (receive req a) = resp_text a"
  by (simp add: receive_def)

lemma json_doc_receive [simp]: "json_doc (receive req a) = json_doc a"
  by (simp add: receive_def)

lemma content_consumed_receive [simp]: "content_consumed (receive req a) = (\<not> req_stream req)"
  by (simp add: receive_def)

text \<open>Reading the body of a response that was not streamed changes nothing.\<close>

lemma reread: "\<not> req_stream req \<Longrightarrow> (receive req a)\<lparr>content_consumed := True\<rparr> = receive req a"
  by (simp add: receive_def)

declare perform.simps [simp del]

lemmas op_defs = run_stateful_def run_stateless_def stream_run_def get_run_status_def
  cancel_run_def get_assistant_details_def get_assistant_schema_def get_thread_state_def
  update_thread_state_def put_item_def get_item_def search_items_def create_assistant_def

lemmas transport_defs = session_post_def session_put_def session_get_def session_request_def

lemmas run_defs = perform.simps op_defs transport_defs returning_def print_def response_text_def
  Let_def

lemma perform_sent:
  "sent (snd (perform c s)) = sent s @ [documented_request (base_url (self s)) c]"
  by (cases c)
     (simp_all add: run_defs documented_request_def supplied_def
        split: sum.splits error.splits option.splits prod.splits)


lemma issued_perform: "issued (perform c s) = documented_request (base_url (self s)) c"
  by (simp add: issued_def perform_sent)

lemma issued_returning: "issued (returning f res) = issued res"
  by (simp add: issued_def returning_def)

lemma body_field_returning: "body_field (returning f res) = body_field res"
  by (simp add: body_field_def issued_returning fun_eq_iff)

lemma body_field_perform:
  "body_field (perform c s) k = (case documented_body c of None \<Rightarrow> None | Some d \<Rightarrow> map_of d k)"
  by (simp add: body_field_def issued_perform documented_request_def)

lemma perform_failure:
  "http_failure (status_code (session (self s) (documented_request (base_url (self s)) c))) \<Longrightarrow>
   fst (perform c s) = Inl (HTTPError (receive (documented_request (base_url (self s)) c)
      (session (self s) (documented_request (base_url (self s)) c))))"
  by (cases c)
     (simp_all add: run_defs documented_request_def raise_for_status_iff reread supplied_def
        split: sum.splits error.splits option.splits prod.splits)

lemma perform_stdout:
  "stdout (snd (perform c s)) =
     (if is_run_stateless c
         \<and> http_failure (status_code (session (self s) (documented_request (base_url (self s)) c)))
      then stdout s @ [[JStr ''HTTP Error:'',
              JInt (status_code (session (self s) (documented_request (base_url (self s)) c))),
              JStr (resp_text (session (self s) (documented_request (base_url (self s)) c)))]]
      else stdout s)"
  by (cases c)
     (simp_all add: run_defs documented_request_def raise_for_status_iff supplied_def
        split: sum.splits error.splits option.splits prod.splits)


section \<open>Requests\<close>

text \<open>
  Claim C1. Every operation issues exactly one request, and that request has the method,
  the path, the body and the query parameters of the documented mapping, its URL being the
  base URL followed by the path with nothing in between. In particular
  \<open>run_stateful(assistant_id="a", input_data="x")\<close> posts to \<open>{base}/threads/runs/wait\<close> the
  body with \<open>assistant_id\<close> \<open>"a"\<close>, \<open>input\<close> \<open>"x"\<close> and \<open>config\<close>, \<open>checkpoint\<close>, \<open>metadata\<close>
  all \<open>null\<close>, and when the answer has a 2xx status and a JSON body, the decoded body is
  what the call returns.
\<close>

theorem request_mapping:
  "sent (snd (perform c s)) = sent s @ [documented_request (base_url (self s)) c]
   \<and> req_url (documented_request (base_url (self s)) c) = base_url (self s) @ documented_path c
   \<and> (let req = \<lparr>req_method = POST, req_url = base_url (self s) @ ''/threads/runs/wait'',
                   req_json = Some [(''assistant_id'', JStr ''a''), (''input'', JStr ''x''),
                                    (''config'', JNull), (''checkpoint'', JNull),
                                    (''metadata'', JNull)],
                   req_params = None, req_stream = False\<rparr>;
            res = run_stateful ''a'' (Some (JStr ''x'')) None None None [] s
        in sent (snd res) = sent s @ [req]
           \<and> (200 \<le> status_code (session (self s) req) \<and> status_code (session (self s) req) < 300
                \<and> json_doc (session (self s) req) = Some j \<longrightarrow> fst res = Inr j))"
proof -
  have "sent (snd (perform c s)) = sent s @ [documented_request (base_url (self s)) c]"
    by (rule perform_sent)
  moreover have "req_url (documented_request (base_url (self s)) c)
      = base_url (self s) @ documented_path c"
    by (simp add: documented_request_def)
  moreover have "(let req = \<lparr>req_method = POST, req_url = base_url (self s) @ ''/threads/runs/wait'',
                   req_json = Some [(''assistant_id'', JStr ''a''), (''input'', JStr ''x''),
                                    (''config'', JNull), (''checkpoint'', JNull),
                                    (''metadata'', JNull)],
                   req_params = None, req_stream = False\<rparr>;
            res = run_stateful ''a'' (Some (JStr ''x'')) None None None [] s
        in sent (snd res) = sent s @ [req]
           \<and> (200 \<le> status_code (session (self s) req) \<and> status_code (session (self s) req) < 300
                \<and> json_doc (session (self s) req) = Some j \<longrightarrow> fst res = Inr j))"
    by (simp add: run_stateful_def transport_defs raise_for_status_def response_json_def
          of_optional_def Let_def)
  ultimately show ?thesis by blast
qed

theorem request_mapping_witness:
  "fst (run_stateful ''a'' (Some (JStr ''x'')) None None None []
          (fresh (replying 200 ''{}'' (Some (JObj [(''run_id'', JStr ''1234'')])))))
     = Inr (JObj [(''run_id'', JStr ''1234'')])
   \<and> sent (snd (perform (GetItem (Some [JStr ''ns'']) (Some ''k''))
                   (fresh (replying 200 ''{}'' (Some (JObj []))))))
     = [\<lparr>req_method = GET, req_url = ''http://localhost:2024/store/items'', req_json = None,
         req_params = Some [(''namespace'', JList [JStr ''ns'']), (''key'', JStr ''k'')],
         req_stream = False\<rparr>]"
  using request_mapping [of "GetItem (Some [JStr ''ns'']) (Some ''k'')"
      "fresh (replying 200 ''{}'' (Some (JObj [])))" "JObj []"]
    request_mapping [of "GetItem None None"
      "fresh (replying 200 ''{}'' (Some (JObj [(''run_id'', JStr ''1234'')])))"
      "JObj [(''run_id'', JStr ''1234'')]"]
  by (simp add: fresh_def replying_def init_def documented_request_def of_optional_def Let_def)

section \<open>Optional parameters in the body\<close>

text \<open>
  Claim C2, as the code has it. For \<open>run_stateful\<close>, \<open>run_stateless\<close>, \<open>stream_run\<close>,
  \<open>update_thread_state\<close> and \<open>search_items\<close> no declared key is ever missing from the
  body, and an optional parameter the caller leaves out appears with the value its
  declaration gives it: \<open>null\<close> for every parameter declared \<open>= None\<close>, \<open>10\<close> for \<open>limit\<close>
  and \<open>0\<close> for \<open>offset\<close>; this value is the one in the body unless the extras carry the
  same key.
\<close>

theorem declared_keys_present:
  "(\<forall>k \<in> set (declared_keys c). body_field (perform c s) k \<noteq> None)
   \<and> (\<forall>(k, v) \<in> set (omitted c).
         k \<notin> fst ` set (extras c) \<longrightarrow> body_field (perform c s) k = Some v)"
proof (intro conjI)
  show "\<forall>k \<in> set (declared_keys c). body_field (perform c s) k \<noteq> None"
    by (cases c) (auto simp: body_field_perform map_of_dict_update_present)
  show "\<forall>(k, v) \<in> set (omitted c).
          k \<notin> fst ` set (extras c) \<longrightarrow> body_field (perform c s) k = Some v"
    by (cases c)
       (auto simp: body_field_perform map_of_dict_update_other left_out_def of_optional_def
          or_default_def split: option.splits)
qed

theorem declared_keys_present_witness:
  "body_field (perform (SearchItems None None None None)
        (fresh (replying 200 ''{}'' (Some (JObj []))))) ''filter'' = Some JNull
   \<and> body_field (perform (SearchItems None None None None)
        (fresh (replying 200 ''{}'' (Some (JObj []))))) ''offset'' = Some (JInt 0)
   \<and> body_field (perform (RunStateful ''a'' None None None None [(''input'', JStr ''y'')])
        (fresh (replying 200 ''{}'' (Some (JObj []))))) ''checkpoint'' = Some JNull
   \<and> body_field (perform (RunStateful ''a'' None None None None [(''input'', JStr ''y'')])
        (fresh (replying 200 ''{}'' (Some (JObj []))))) ''input'' \<noteq> None"
  using declared_keys_present [of "SearchItems None None None None"
      "fresh (replying 200 ''{}'' (Some (JObj [])))"]
    declared_keys_present [of "RunStateful ''a'' None None None None [(''input'', JStr ''y'')]"
      "fresh (replying 200 ''{}'' (Some (JObj [])))"]
  by (simp add: left_out_def)

text \<open>
  Claim C2 as it is worded fails: \<open>search_items()\<close> with nothing supplied sends \<open>limit\<close> as
  \<open>10\<close>, not as \<open>null\<close>.
\<close>

theorem search_items_limit_counterexample:
  "body_field (search_items None None None None (fresh (replying 200 ''{}'' (Some (JObj [])))))
     ''limit'' = Some (JInt 10)"
  by (simp add: search_items_def transport_defs body_field_def issued_def or_default_def
        of_optional_def Let_def split: sum.splits prod.splits)

text \<open>
  Claim C3. In the body of \<open>create_assistant\<close>, \<open>graph_id\<close> and \<open>if_exists\<close> are always
  there (\<open>if_exists\<close> being \<open>"raise"\<close> when the caller gives none), and each of
  \<open>assistant_id\<close>, \<open>config\<close>, \<open>metadata\<close>, \<open>name\<close> is absent when not supplied and present
  with its given value when supplied.
\<close>

theorem create_assistant_body:
  "body_field (create_assistant g a c m n ie s) ''graph_id'' = Some (JStr g)
   \<and> body_field (create_assistant g a c m n ie s) ''if_exists''
       = Some (JStr (or_default ''raise'' ie))
   \<and> body_field (create_assistant g a c m n None s) ''if_exists'' = Some (JStr ''raise'')
   \<and> body_field (create_assistant g a c m n ie s) ''assistant_id'' = map_option JStr a
   \<and> body_field (create_assistant g a c m n ie s) ''config'' = map_option JObj c
   \<and> body_field (create_assistant g a c m n ie s) ''metadata'' = map_option JObj m
   \<and> body_field (create_assistant g a c m n ie s) ''name'' = map_option JStr n"
proof -
  have "body_field (create_assistant g a c m n ie s) k
          = body_field (perform (CreateAssistant g a c m n ie) s) k" for k ie
    by (simp add: perform.simps body_field_returning)
  then show ?thesis
    by (simp add: body_field_perform supplied_def or_default_def split: option.splits)
qed

theorem create_assistant_body_witness:
  "body_field (create_assistant ''agent'' None (Some [(''recursion_limit'', JInt 10)]) None None None
        (fresh (replying 200 ''{}'' (Some (JObj []))))) ''config''
     = Some (JObj [(''recursion_limit'', JInt 10)])
   \<and> body_field (create_assistant ''agent'' None (Some [(''recursion_limit'', JInt 10)]) None None None
        (fresh (replying 200 ''{}'' (Some (JObj []))))) ''metadata'' = None
   \<and> body_field (create_assistant ''agent'' None (Some [(''recursion_limit'', JInt 10)]) None None None
        (fresh (replying 200 ''{}'' (Some (JObj []))))) ''if_exists'' = Some (JStr ''raise'')"
  using create_assistant_body [of "''agent''" None "Some [(''recursion_limit'', JInt 10)]" None None
      None "fresh (replying 200 ''{}'' (Some (JObj [])))"]
  by (simp add: or_default_def)

section \<open>Extras\<close>

text \<open>
  Claim C4. For \<open>run_stateful\<close>, \<open>run_stateless\<close>, \<open>stream_run\<close> and \<open>cancel_run\<close> the body is
  the named fields with the extras merged into them afterwards: a key of the extras has
  the extras' value in the body, also when a named field has the same key, and every other
  key keeps the named field's value. (\<open>cancel_run\<close> has no named field in its body.)
\<close>

theorem extras_override:
  "accepts_extras c \<Longrightarrow> distinct (map fst (extras c)) \<Longrightarrow>
   req_json (issued (perform c s)) = Some (dict_update (named_fields c) (extras c))
   \<and> body_field (perform c s) k
       = (case map_of (extras c) k of Some v \<Rightarrow> Some v | None \<Rightarrow> map_of (named_fields c) k)"
  by (cases c)
     (simp_all add: body_field_perform issued_perform documented_request_def map_of_dict_update
        dict_update_disjoint split: option.splits)

theorem extras_override_witness:
  "body_field (perform (RunStateful ''a'' (Some (JStr ''x'')) None None None [(''input'', JStr ''y'')])
        (fresh (replying 200 ''{}'' (Some (JObj []))))) ''input'' = Some (JStr ''y'')
   \<and> req_json (issued (perform
        (RunStateful ''a'' (Some (JStr ''x'')) None None None [(''input'', JStr ''y'')])
        (fresh (replying 200 ''{}'' (Some (JObj []))))))
      = Some [(''assistant_id'', JStr ''a''), (''input'', JStr ''y''), (''config'', JNull),
              (''checkpoint'', JNull), (''metadata'', JNull)]"
  using extras_override [of
      "RunStateful ''a'' (Some (JStr ''x'')) None None None [(''input'', JStr ''y'')]"
      "fresh (replying 200 ''{}'' (Some (JObj [])))" "''input''"]
  by (simp add: of_optional_def)

section \<open>Failures\<close>




section \<open>Streaming\<close>

text \<open>
  Claim C6, as the code has it. \<open>stream_run\<close> posts its payload to \<open>{base}/runs/stream\<close> in
  streaming mode, so the response it gets has its body still unread. The status is checked
  on that response: a status code from 400 to 599 makes the call fail with the HTTP error
  carrying the unread response; with any other status the unread response object itself is
  returned. Nothing is printed.
\<close>

theorem stream_run_handle:
  "let res = stream_run a i c m kw s; req = issued res; r = receive req (session (self s) req)
   in req = \<lparr>req_method = POST, req_url = base_url (self s) @ ''/runs/stream'',
             req_json = Some (dict_update [(''assistant_id'', JStr a), (''input'', of_optional id i),
                                (''config'', of_optional JObj c),
                                (''metadata'', of_optional JObj m)] kw),
             req_params = None, req_stream = True\<rparr>
      \<and> \<not> content_consumed r
      \<and> (http_failure (status_code r) \<longrightarrow> fst res = Inl (HTTPError r))
      \<and> (\<not> http_failure (status_code r) \<longrightarrow> fst res = Inr r)
      \<and> stdout (snd res) = stdout s"
  by (simp add: stream_run_def transport_defs issued_def raise_for_status_iff Let_def
        split: prod.splits)

theorem stream_run_handle_witness:
  "fst (stream_run ''a'' None None None [] (fresh (replying 200 ''data: Hello'' None)))
     = Inr \<lparr>status_code = 200, resp_text = ''data: Hello'', json_doc = None,
            content_consumed = False\<rparr>
   \<and> fst (stream_run ''a'' None None None [] (fresh (replying 404 ''no such assistant'' None)))
     = Inl (HTTPError \<lparr>status_code = 404, resp_text = ''no such assistant'', json_doc = None,
                       content_consumed = False\<rparr>)"
  using stream_run_handle [of "''a''" None None None "[]" "fresh (replying 200 ''data: Hello'' None)"]
    stream_run_handle [of "''a''" None None None "[]"
      "fresh (replying 404 ''no such assistant'' None)"]
  by (simp add: fresh_def replying_def init_def http_failure_def receive_def Let_def)

text \<open>
  Claim C6 as it is worded fails where it says the call raises on every non-2xx status:
  with the answer \<open>304\<close>, \<open>stream_run\<close> returns the response object.
\<close>

theorem stream_run_not_raising_counterexample:
  "fst (stream_run ''a'' None None None [] (fresh (replying 304 [] None)))
     = Inr \<lparr>status_code = 304, resp_text = [], json_doc = None, content_consumed = False\<rparr>"
  by (simp add: stream_run_def transport_defs raise_for_status_def
        fresh_def replying_def init_def receive_def Let_def)

section \<open>The diagnostic of \<open>run_stateless\<close>\<close>

text \<open>
  Claim C7, as the code has it. When the answer to \<open>run_stateless\<close> has a status code from
  400 to 599, one record with the status code and the body is printed, and the call then
  fails with the HTTP error carrying the response: the failure any other operation signals
  for that answer (the response of a streaming call differing only in that its body is
  still unread). With any other status \<open>run_stateless\<close> prints nothing, and no other
  operation ever prints.
\<close>

theorem run_stateless_diagnostic:
  "let res = run_stateless a i c m kw s; req = issued res; ans = session (self s) req;
       r = receive req ans
   in (http_failure (status_code ans) \<longrightarrow>
         stdout (snd res)
           = stdout s @ [[JStr ''HTTP Error:'', JInt (status_code ans), JStr (resp_text ans)]]
         \<and> fst res = Inl (HTTPError r)
         \<and> (\<forall>c'. session (self s) (issued (perform c' s)) = ans \<longrightarrow>
               fst (perform c' s)
                 = Inl (HTTPError (r\<lparr>content_consumed := \<not> req_stream (issued (perform c' s))\<rparr>))))
      \<and> (\<not> http_failure (status_code ans) \<longrightarrow> stdout (snd res) = stdout s)
      \<and> (\<forall>c'. \<not> is_run_stateless c' \<longrightarrow> stdout (snd (perform c' s)) = stdout s)"
proof -
  let ?c = "RunStateless a i c m kw"
  let ?req = "documented_request (base_url (self s)) ?c"
  let ?ans = "session (self s) ?req"
  have res: "fst (perform ?c s) = map_sum id Document (fst (run_stateless a i c m kw s))"
    "snd (perform ?c s) = snd (run_stateless a i c m kw s)"
    by (simp_all add: perform.simps returning_def)
  have req: "issued (run_stateless a i c m kw s) = ?req"
    using issued_perform [of ?c s] by (simp add: issued_def res)
  have out: "stdout (snd (run_stateless a i c m kw s)) =
      (if http_failure (status_code ?ans)
       then stdout s @ [[JStr ''HTTP Error:'', JInt (status_code ?ans), JStr (resp_text ?ans)]]
       else stdout s)"
    using perform_stdout [of ?c s] by (simp add: res)
  have fail: "fst (run_stateless a i c m kw s) = Inl (HTTPError (receive ?req ?ans))"
    if "http_failure (status_code ?ans)"
    using perform_failure [of s ?c] that
    by (cases "fst (run_stateless a i c m kw s)") (simp_all add: res)
  have same: "fst (perform c' s)
      = Inl (HTTPError ((receive ?req ?ans)\<lparr>content_consumed := \<not> req_stream (issued (perform c' s))\<rparr>))"
    if "http_failure (status_code ?ans)" "session (self s) (issued (perform c' s)) = ?ans" for c'
    using perform_failure [of s c'] that by (simp add: issued_perform receive_def)
  have others: "stdout (snd (perform c' s)) = stdout s" if "\<not> is_run_stateless c'" for c'
    using that by (simp add: perform_stdout)
  show ?thesis
    unfolding Let_def req using out fail same others by auto
qed

theorem run_stateless_diagnostic_witness:
  "stdout (snd (run_stateless ''a'' None None None [] (fresh (replying 400 ''Invalid input'' None))))
     = [[JStr ''HTTP Error:'', JInt 400, JStr ''Invalid input'']]
   \<and> fst (run_stateless ''a'' None None None [] (fresh (replying 400 ''Invalid input'' None)))
     = Inl (HTTPError \<lparr>status_code = 400, resp_text = ''Invalid input'', json_doc = None,
                       content_consumed = True\<rparr>)
   \<and> fst (perform (GetThreadState ''t'') (fresh (replying 400 ''Invalid input'' None)))
     = Inl (HTTPError \<lparr>status_code = 400, resp_text = ''Invalid input'', json_doc = None,
                       content_consumed = True\<rparr>)
   \<and> stdout (snd (perform (GetThreadState ''t'') (fresh (replying 400 ''Invalid input'' None)))) = []"
proof -
  let ?s = "fresh (replying 400 ''Invalid input'' None)"
  have req: "issued (run_stateless ''a'' None None None [] ?s)
               = issued (perform (RunStateless ''a'' None None None []) ?s)"
    by (simp add: perform.simps issued_returning)
  have ans: "session (self ?s) q
               = \<lparr>status_code = 400, resp_text = ''Invalid input'', json_doc = None\<rparr>" for q
    by (simp add: fresh_def replying_def init_def)
  have plain: "\<not> req_stream (issued (perform (GetThreadState ''t'') ?s))"
    "\<not> req_stream (issued (perform (RunStateless ''a'' None None None []) ?s))"
    by (simp_all add: issued_perform documented_request_def)
  have quiet: "\<not> is_run_stateless (GetThreadState ''t'')"
    by simp
  have "stdout ?s = []"
    by (simp add: fresh_def)
  with run_stateless_diagnostic [of "''a''" None None None "[]" ?s] ans plain quiet
  show ?thesis
    by (simp add: req http_failure_def receive_def Let_def)
qed

text \<open>
  Claim C7 as it is worded fails for a status code that is neither 2xx nor 4xx/5xx: with
  the answer \<open>300\<close> and a JSON body, \<open>run_stateless\<close> prints nothing and returns the
  decoded body.
\<close>

theorem run_stateless_silent_counterexample:
  "stdout (snd (run_stateless ''a'' None None None []
                  (fresh (replying 300 ''{}'' (Some (JObj [])))))) = []
   \<and> fst (run_stateless ''a'' None None None [] (fresh (replying 300 ''{}'' (Some (JObj [])))))
       = Inr (JObj [])"
  by (simp add: run_stateless_def transport_defs raise_for_status_def response_json_def
        fresh_def replying_def init_def receive_def Let_def)

section \<open>Derived and query operations\<close>

text \<open>
  Claim C8. \<open>get_assistant_schema\<close> issues the one request of \<open>get_assistant_details\<close>, a
  GET to \<open>{base}/assistants/{assistant_id}/schemas\<close>, and from the document that call
  returns (a JSON object) it returns the \<open>input_schema\<close> field, or an empty mapping when
  the document has no such field. A failure of \<open>get_assistant_details\<close> is passed on.
\<close>

theorem get_assistant_schema_field:
  "let details = get_assistant_details a s; schema = get_assistant_schema a s
   in snd schema = snd details
      \<and> issued schema
          = \<lparr>req_method = GET, req_url = base_url (self s) @ ''/assistants/'' @ a @ ''/schemas'',
             req_json = None, req_params = None, req_stream = False\<rparr>
      \<and> (\<forall>d. fst details = Inr (JObj d) \<longrightarrow>
            fst schema = Inr (case map_of d ''input_schema'' of Some v \<Rightarrow> v | None \<Rightarrow> JObj []))
      \<and> (\<forall>e. fst details = Inl e \<longrightarrow> fst schema = Inl e)"
proof -
  have "issued (get_assistant_schema a s) = issued (perform (GetAssistantSchema a) s)"
    by (simp add: perform.simps issued_returning)
  then have "issued (get_assistant_schema a s) =
      \<lparr>req_method = GET, req_url = base_url (self s) @ ''/assistants/'' @ a @ ''/schemas'',
       req_json = None, req_params = None, req_stream = False\<rparr>"
    by (simp add: issued_perform documented_request_def)
  then show ?thesis
    by (auto simp: get_assistant_schema_def dict_get_def Let_def split: prod.splits sum.splits)
qed

theorem get_assistant_schema_field_witness:
  "fst (get_assistant_schema ''my_assistant''
          (fresh (replying 200 ''{}''
             (Some (JObj [(''input_schema'', JObj [(''type'', JStr ''object'')]),
                          (''output_schema'', JObj [])])))))
     = Inr (JObj [(''type'', JStr ''object'')])
   \<and> fst (get_assistant_schema ''my_assistant''
          (fresh (replying 200 ''{}''
             (Some (JObj [(''output_schema'', JObj [(''type'', JStr ''object'')])])))))
     = Inr (JObj [])"
proof -
  have details:
    "fst (get_assistant_details ''my_assistant'' (fresh (replying 200 ''{}'' (Some doc)))) = Inr doc"
    for doc
    by (simp add: get_assistant_details_def transport_defs raise_for_status_def response_json_def
          fresh_def replying_def init_def receive_def Let_def)
  show ?thesis
    using get_assistant_schema_field [of "''my_assistant''"
        "fresh (replying 200 ''{}''
           (Some (JObj [(''input_schema'', JObj [(''type'', JStr ''object'')]),
                        (''output_schema'', JObj [])])))"]
      get_assistant_schema_field [of "''my_assistant''"
        "fresh (replying 200 ''{}''
           (Some (JObj [(''output_schema'', JObj [(''type'', JStr ''object'')])])))"]
    by (simp add: details Let_def)
qed

text \<open>
  Claim C9. \<open>get_item\<close> issues a GET to \<open>{base}/store/items\<close> with no JSON body and with a
  query-parameter mapping that always holds both \<open>namespace\<close> and \<open>key\<close>, each \<open>None\<close> when
  the caller gave none; for \<open>namespace=["ns"]\<close>, \<open>key="k"\<close> the mapping holds that list and
  that string. When the status check passes and the body is JSON, the decoded body is
  returned.
\<close>

theorem get_item_query:
  "let res = get_item ns k s; req = issued res
   in req = \<lparr>req_method = GET, req_url = base_url (self s) @ ''/store/items'', req_json = None,
             req_params = Some [(''namespace'', of_optional JList ns),
                                (''key'', of_optional JStr k)],
             req_stream = False\<rparr>
      \<and> (\<not> http_failure (status_code (session (self s) req))
            \<and> json_doc (session (self s) req) = Some j
          \<longrightarrow> fst res = Inr j)
      \<and> req_params (issued (get_item (Some [JStr ''ns'']) (Some ''k'') s))
          = Some [(''namespace'', JList [JStr ''ns'']), (''key'', JStr ''k'')]
      \<and> req_params (issued (get_item None None s))
          = Some [(''namespace'', JNull), (''key'', JNull)]"
  by (simp add: get_item_def transport_defs issued_def raise_for_status_iff response_json_def
        of_optional_def Let_def)

theorem get_item_query_witness:
  "fst (get_item (Some [JStr ''ns'']) (Some ''k'')
          (fresh (replying 200 ''{}'' (Some (JObj [(''key'', JStr ''k'')])))))
     = Inr (JObj [(''key'', JStr ''k'')])"
  using get_item_query [of "Some [JStr ''ns'']" "Some ''k''"
      "fresh (replying 200 ''{}'' (Some (JObj [(''key'', JStr ''k'')])))"
      "JObj [(''key'', JStr ''k'')]"]
  by (simp add: fresh_def replying_def init_def http_failure_def Let_def)

section \<open>The client object and the caller's values\<close>



end
